theory Spec2Isabelle
  imports Complex_Main "HOL-Library.Log_Nat" "HOL-Library.Code_Target_Nat"
begin

section \<open>Numbers and text of the Python runtime\<close>

subsection \<open>Binary64 floating point\<close>

text \<open>
  Python's \<open>float\<close> is IEEE-754 binary64. A float value is modelled by the rational
  number it denotes; every arithmetic operation computes the exact rational result and
  rounds it to the nearest number with a 53-bit significand, ties to even
  (\<open>fl64\<close>). The exponent range is not bounded: every number of this program lies
  between \<open>2^-10\<close> and \<open>2^60\<close>, far from overflow and from the subnormal range.
  A decimal literal such as \<open>0.3\<close> is \<open>fl64 (3/10)\<close>.
\<close>

definition round_even :: "rat \<Rightarrow> int" where
  "round_even x = (let f = \<lfloor>x\<rfloor>; d = x - of_int f in
     if d < 1/2 then f else if 1/2 < d then f + 1 else if even f then f else f + 1)"

text \<open>\<open>binade x\<close> is the exponent \<open>e\<close> with \<open>2^e \<le> x < 2^(e+1)\<close>, for \<open>x > 0\<close>.\<close>

definition binade :: "rat \<Rightarrow> int" where
  "binade x = (if 1 \<le> x then bitlen \<lfloor>x\<rfloor> - 1 else - bitlen (\<lceil>1 / x\<rceil> - 1))"

definition flp :: "rat \<Rightarrow> rat" where
  "flp a = (let e = binade a in of_int (round_even (a * 2 powi (52 - e))) * 2 powi (e - 52))"

definition fl64 :: "rat \<Rightarrow> rat" where
  "fl64 x = (if x = 0 then 0 else if x < 0 then - flp (- x) else flp x)"

definition fadd :: "rat \<Rightarrow> rat \<Rightarrow> rat" where
  "fadd a b = fl64 (a + b)"

definition fsub :: "rat \<Rightarrow> rat \<Rightarrow> rat" where
  "fsub a b = fl64 (a - b)"

definition fmul :: "rat \<Rightarrow> rat \<Rightarrow> rat" where
  "fmul a b = fl64 (a * b)"

text \<open>True division \<open>a / b\<close>; the callers below guard \<open>b \<noteq> 0\<close> themselves.\<close>

definition fdiv :: "rat \<Rightarrow> rat \<Rightarrow> rat" where
  "fdiv a b = fl64 (a / b)"

subsection \<open>Strings and character tables\<close>

text \<open>
  A Python \<open>str\<close> is a sequence of Unicode code points: \<open>len\<close> counts code points and
  a comparison of one-character strings compares code points.
\<close>

type_synonym ustr = "nat list"

definition u :: "string \<Rightarrow> ustr" where
  "u s = map of_char s"

text \<open>
  The Unicode character database of the interpreter is not part of the repository. The
  functions that consult it (\<open>str.isalpha\<close>, \<open>str.strip\<close>, the classes \<open>\s\<close>, \<open>\d\<close>,
  \<open>\b\<close> and the case folding of \<open>re.IGNORECASE\<close>) take the tables as a parameter.
\<close>

record chardb =
  isspace :: "nat \<Rightarrow> bool"
  isdecimal :: "nat \<Rightarrow> bool"
  isalpha :: "nat \<Rightarrow> bool"
  isalnum :: "nat \<Rightarrow> bool"
  lower :: "nat \<Rightarrow> nat"
  upper :: "nat \<Rightarrow> nat"
  islower :: "nat \<Rightarrow> bool"
  isupper :: "nat \<Rightarrow> bool"
  istitle :: "nat \<Rightarrow> bool"

text \<open>
  \<open>sample_db\<close> is the database of CPython (Unicode 14) restricted to the blocks Basic
  Latin, Hiragana, Katakana, CJK Unified Ideographs and Hangul Syllables, with the full
  white-space table. It is used only to evaluate the functions at concrete texts made of
  code points of these blocks.
\<close>

definition sample_isspace :: "nat \<Rightarrow> bool" where
  "sample_isspace c = ((9 \<le> c \<and> c \<le> 13) \<or> (28 \<le> c \<and> c \<le> 32) \<or> c = 0x85 \<or> c = 0xA0
     \<or> c = 0x1680 \<or> (0x2000 \<le> c \<and> c \<le> 0x200A) \<or> c = 0x2028 \<or> c = 0x2029 \<or> c = 0x202F
     \<or> c = 0x205F \<or> c = 0x3000)"

definition sample_isdecimal :: "nat \<Rightarrow> bool" where
  "sample_isdecimal c = (0x30 \<le> c \<and> c \<le> 0x39)"

definition sample_isalpha :: "nat \<Rightarrow> bool" where
  "sample_isalpha c = ((0x41 \<le> c \<and> c \<le> 0x5A) \<or> (0x61 \<le> c \<and> c \<le> 0x7A)
     \<or> (0x3041 \<le> c \<and> c \<le> 0x3096) \<or> (0x309D \<le> c \<and> c \<le> 0x309F)
     \<or> (0x30A1 \<le> c \<and> c \<le> 0x30FA) \<or> (0x30FC \<le> c \<and> c \<le> 0x30FF)
     \<or> (0x4E00 \<le> c \<and> c \<le> 0x9FFF) \<or> (0xAC00 \<le> c \<and> c \<le> 0xD7A3))"

definition sample_isalnum :: "nat \<Rightarrow> bool" where
  "sample_isalnum c = (sample_isdecimal c \<or> sample_isalpha c)"

definition sample_lower :: "nat \<Rightarrow> nat" where
  "sample_lower c = (if 0x41 \<le> c \<and> c \<le> 0x5A then c + 32 else c)"

definition sample_upper :: "nat \<Rightarrow> nat" where
  "sample_upper c = (if 0x61 \<le> c \<and> c \<le> 0x7A then c - 32 else c)"

definition sample_islower :: "nat \<Rightarrow> bool" where
  "sample_islower c = (0x61 \<le> c \<and> c \<le> 0x7A)"

definition sample_isupper :: "nat \<Rightarrow> bool" where
  "sample_isupper c = (0x41 \<le> c \<and> c \<le> 0x5A)"

definition sample_db :: chardb where
  "sample_db = \<lparr> isspace = sample_isspace, isdecimal = sample_isdecimal,
     isalpha = sample_isalpha, isalnum = sample_isalnum, lower = sample_lower,
     upper = sample_upper, islower = sample_islower, isupper = sample_isupper,
     istitle = (\<lambda>c. False) \<rparr>"

subsection \<open>Regular expressions\<close>

text \<open>
  The module \<open>re\<close> belongs to the runtime. Only the existence of a match is ever used
  by the repository (the results of \<open>re.match\<close> and \<open>re.search\<close> are tested for truth),
  and it is the membership problem of the pattern read as a regular expression with the
  anchors \<open>^\<close>, \<open>$\<close> and \<open>\b\<close>. Groups do not affect it and are not represented.
  \<open>rmatch\<close> maps the set of positions where a match may start to the set of positions
  where it may end.
\<close>

datatype citem = CChar nat | CRange nat nat | CDigit | CSpace

datatype regex = Eps | Lit nat | Cls "citem list" | Dot | Bol | Eol | WordB
  | Seq regex regex | Alt regex regex | Opt regex | Star regex | Plus regex
  | AtLeast nat regex

fun seqs :: "regex list \<Rightarrow> regex" where
  "seqs [] = Eps"
| "seqs [r] = r"
| "seqs (r # rs) = Seq r (seqs rs)"

fun alts :: "regex list \<Rightarrow> regex" where
  "alts [] = Cls []"
| "alts [r] = r"
| "alts (r # rs) = Alt r (alts rs)"

definition str :: "ustr \<Rightarrow> regex" where
  "str s = seqs (map Lit s)"

text \<open>
  With \<open>re.IGNORECASE\<close> (\<open>ic\<close>) a literal matches a character with the same lower
  case, and a range matches a character whose lower case, or the upper case of that, lies
  in the range, as CPython's matcher does.
\<close>

definition lit_ok :: "chardb \<Rightarrow> bool \<Rightarrow> nat \<Rightarrow> nat \<Rightarrow> bool" where
  "lit_ok db ic c ch = (if ic then lower db ch = lower db c else ch = c)"

fun item_ok :: "chardb \<Rightarrow> bool \<Rightarrow> nat \<Rightarrow> citem \<Rightarrow> bool" where
  "item_ok db ic ch (CChar c) = lit_ok db ic c ch"
| "item_ok db ic ch (CRange lo hi) =
     (if ic then (let l = lower db ch in (lo \<le> l \<and> l \<le> hi) \<or> (lo \<le> upper db l \<and> upper db l \<le> hi))
      else lo \<le> ch \<and> ch \<le> hi)"
| "item_ok db ic ch CDigit = isdecimal db ch"
| "item_ok db ic ch CSpace = isspace db ch"

definition advance :: "(nat \<Rightarrow> bool) \<Rightarrow> ustr \<Rightarrow> nat list \<Rightarrow> nat list" where
  "advance P s ps = map Suc (filter (\<lambda>p. p < length s \<and> P (s ! p)) ps)"

definition word_at :: "chardb \<Rightarrow> ustr \<Rightarrow> nat \<Rightarrow> bool" where
  "word_at db s p = (p < length s \<and> (isalnum db (s ! p) \<or> s ! p = 0x5F))"

definition at_boundary :: "chardb \<Rightarrow> ustr \<Rightarrow> nat \<Rightarrow> bool" where
  "at_boundary db s p = ((0 < p \<and> word_at db s (p - 1)) \<noteq> word_at db s p)"

definition at_end :: "ustr \<Rightarrow> nat \<Rightarrow> bool" where
  "at_end s p = (p = length s \<or> (Suc p = length s \<and> s ! p = 0x0A))"

text \<open>Union of two increasing lists of positions.\<close>

fun merge :: "nat list \<Rightarrow> nat list \<Rightarrow> nat list" where
  "merge [] qs = qs"
| "merge ps [] = ps"
| "merge (p # ps) (q # qs) =
     (if p < q then p # merge ps (q # qs)
      else if q < p then q # merge (p # ps) qs
      else p # merge ps qs)"

fun star_close :: "(nat list \<Rightarrow> nat list) \<Rightarrow> nat \<Rightarrow> nat list \<Rightarrow> nat list" where
  "star_close f 0 ps = ps"
| "star_close f (Suc k) ps = (if ps = [] then [] else merge ps (star_close f k (f ps)))"

primrec rmatch :: "chardb \<Rightarrow> bool \<Rightarrow> ustr \<Rightarrow> regex \<Rightarrow> nat list \<Rightarrow> nat list" where
  "rmatch db ic s Eps ps = ps"
| "rmatch db ic s (Lit c) ps = advance (lit_ok db ic c) s ps"
| "rmatch db ic s (Cls items) ps = advance (\<lambda>ch. list_ex (item_ok db ic ch) items) s ps"
| "rmatch db ic s Dot ps = advance (\<lambda>ch. ch \<noteq> 0x0A) s ps"
| "rmatch db ic s Bol ps = filter (\<lambda>p. p = 0) ps"
| "rmatch db ic s Eol ps = filter (at_end s) ps"
| "rmatch db ic s WordB ps = filter (at_boundary db s) ps"
| "rmatch db ic s (Seq a b) ps = rmatch db ic s b (rmatch db ic s a ps)"
| "rmatch db ic s (Alt a b) ps = merge (rmatch db ic s a ps) (rmatch db ic s b ps)"
| "rmatch db ic s (Opt a) ps = merge ps (rmatch db ic s a ps)"
| "rmatch db ic s (Star a) ps = star_close (rmatch db ic s a) (length s) ps"
| "rmatch db ic s (Plus a) ps = star_close (rmatch db ic s a) (length s) (rmatch db ic s a ps)"
| "rmatch db ic s (AtLeast n a) ps =
     star_close (rmatch db ic s a) (length s) ((rmatch db ic s a ^^ n) ps)"

definition re_match :: "chardb \<Rightarrow> bool \<Rightarrow> regex \<Rightarrow> ustr \<Rightarrow> bool" where
  "re_match db ic r s = (rmatch db ic s r [0] \<noteq> [])"

definition re_search :: "chardb \<Rightarrow> bool \<Rightarrow> regex \<Rightarrow> ustr \<Rightarrow> bool" where
  "re_search db ic r s = (rmatch db ic s r [0..<Suc (length s)] \<noteq> [])"

section \<open>config.py\<close>

subsection \<open>Language configurations\<close>

datatype error = ValueError | ZeroDivisionError | TypeError | KeyError | OSError
  | CollaboratorError string

text \<open>Heading types are the strings \<open>'TITLE'\<close>, \<open>'H1'\<close>, \<open>'H2'\<close>, \<open>'H3'\<close> and \<open>'BODY'\<close>.\<close>

datatype level = TITLE | H1 | H2 | H3 | BODY

type_synonym rule = "regex \<times> level \<times> rat"

definition SUPPORTED_LANGUAGES :: "(string \<times> string) list" where
  "SUPPORTED_LANGUAGES = [
     (''english'', ''eng''), (''japanese'', ''jpn''), (''chinese_simplified'', ''chi_sim''),
     (''chinese_traditional'', ''chi_tra''), (''korean'', ''kor''), (''spanish'', ''spa''),
     (''french'', ''fra''), (''german'', ''deu''), (''portuguese'', ''por''),
     (''italian'', ''ita''), (''russian'', ''rus''), (''arabic'', ''ara''), (''hindi'', ''hin'')]"

definition ascii_lower :: "char \<Rightarrow> char" where
  "ascii_lower c = (let n = (of_char c :: nat) in if 65 \<le> n \<and> n \<le> 90 then char_of (n + 32) else c)"

text \<open>
  \<open>Config.__init__\<close>: the language name is lower-cased and must be a supported one. The
  configuration object is determined by the name, which stands for it below.
\<close>

definition Config_init :: "string \<Rightarrow> error + string" where
  "Config_init language =
     (let l = map ascii_lower language
      in if l \<notin> set (map fst SUPPORTED_LANGUAGES) then Inl ValueError else Inr l)"

text \<open>
  The rule tables of \<open>_get_english_config\<close>, \<open>_get_japanese_config\<close>,
  \<open>_get_chinese_config\<close> and \<open>_get_korean_config\<close> (config.py, lines 65-87, 102-120,
  140-152 and 172-184), in the order of the source. Characters of the patterns are
  written as code points. The third component is the decimal literal of the source; the
  classifier reads it as the binary64 number nearest to it.
\<close>

definition english_patterns :: "rule list" where
  "english_patterns = [
    (seqs [Bol, alts [str (u ''Chapter''), str (u ''CHAPTER'')], Plus (Cls [CSpace]),
        alts [Plus (Cls [CDigit]), Plus (Cls [CChar 0x49, CChar 0x56, CChar 0x58])],
        Opt (Cls [CChar 0x3A, CChar 0x2E]), Star (Cls [CSpace]), Plus (Dot)],
      H1, 9/10),
    (seqs [Bol, seqs [Plus (Cls [CChar 0x49, CChar 0x56, CChar 0x58]), Lit 0x2E],
        Plus (Cls [CSpace]), Plus (Dot)],
      H1, 85/100),
    (seqs [Bol, seqs [Plus (Cls [CDigit]), Lit 0x2E], Plus (Cls [CSpace]),
        seqs [Cls [CRange 0x41 0x5A], Star (Dot)]],
      H1, 8/10),
    (seqs [Bol, seqs [Plus (Cls [CDigit]), Lit 0x2E, Plus (Cls [CDigit])],
        Plus (Cls [CSpace]), Plus (Dot)],
      H2, 8/10),
    (seqs [Bol, alts [seqs [Cls [CRange 0x41 0x5A], Lit 0x2E],
        seqs [Cls [CRange 0x61 0x7A], Lit 0x2E]], Plus (Cls [CSpace]), Plus (Dot)],
      H2, 7/10),
    (seqs [Bol, seqs [Plus (Cls [CDigit]), Lit 0x2E, Plus (Cls [CDigit]), Lit 0x2E,
        Plus (Cls [CDigit])], Plus (Cls [CSpace]), Plus (Dot)],
      H3, 75/100),
    (seqs [Bol, alts [seqs [Cls [CRange 0x61 0x7A], Lit 0x29],
        seqs [Cls [CRange 0x41 0x5A], Lit 0x29], seqs [Plus (Cls [CDigit]), Lit 0x29]],
        Plus (Cls [CSpace]), Plus (Dot)],
      H3, 6/10),
    (seqs [Bol, alts [Lit 0x2022, Lit 0x2A, Lit 0x2D, Lit 0x2B], Plus (Cls [CSpace]),
        Plus (Dot)],
      H3, 5/10),
    (seqs [Bol, AtLeast 8 (Cls [CRange 0x41 0x5A, CSpace, CDigit]), Eol],
      TITLE, 7/10),
    (seqs [Bol, Cls [CRange 0x41 0x5A], AtLeast 10 (Cls [CRange 0x41 0x5A, CSpace,
        CDigit, CChar 0x3A, CChar 0x2C, CChar 0x2D]), Eol],
      TITLE, 6/10),
    (seqs [WordB, alts [str (u ''education''), str (u ''experience''),
        str (u ''projects''), str (u ''skills''), str (u ''technical''),
        str (u ''summary''), str (u ''objective'')], WordB],
      H1, 6/10),
    (seqs [WordB, alts [str (u ''introduction''), str (u ''overview''),
        str (u ''conclusion''), str (u ''abstract'')], WordB],
      H1, 5/10)]"

definition japanese_patterns :: "rule list" where
  "japanese_patterns = [
    (seqs [Bol, alts [Lit 0x7B2C, str [0x3060, 0x3044]], Plus (Cls [CRange 0x30 0x39,
        CRange 0xFF10 0xFF19, CChar 0x4E00, CChar 0x4E8C, CChar 0x4E09, CChar 0x56DB,
        CChar 0x4E94, CChar 0x516D, CChar 0x4E03, CChar 0x516B, CChar 0x4E5D,
        CChar 0x5341, CChar 0x767E]), Cls [CChar 0x7AE0, CChar 0x7BC0],
        Opt (Cls [CChar 0x3A, CChar 0xFF1A]), Star (Cls [CSpace]), Plus (Dot)],
      H1, 9/10),
    (seqs [Bol, Plus (Cls [CRange 0x30 0x39, CRange 0xFF10 0xFF19]), Cls [CChar 0x2E,
        CChar 0xFF0E], Star (Cls [CSpace]), Plus (Dot)],
      H1, 8/10),
    (seqs [Bol, Plus (Cls [CRange 0x30 0x39, CRange 0xFF10 0xFF19]), Cls [CChar 0x2E,
        CChar 0xFF0E], Plus (Cls [CRange 0x30 0x39, CRange 0xFF10 0xFF19]),
        Cls [CChar 0x2E, CChar 0xFF0E], Star (Cls [CSpace]), Plus (Dot)],
      H2, 8/10),
    (seqs [Bol, Plus (Cls [CRange 0x30 0x39, CRange 0xFF10 0xFF19]), Cls [CChar 0x2E,
        CChar 0xFF0E], Plus (Cls [CRange 0x30 0x39, CRange 0xFF10 0xFF19]),
        Cls [CChar 0x2E, CChar 0xFF0E], Plus (Cls [CRange 0x30 0x39,
        CRange 0xFF10 0xFF19]), Cls [CChar 0x2E, CChar 0xFF0E], Star (Cls [CSpace]),
        Plus (Dot)],
      H3, 75/100),
    (seqs [Bol, Cls [CChar 0x30FB, CChar 0x25CF, CChar 0x25CB, CChar 0x25CE,
        CChar 0x25C6, CChar 0x25B2, CChar 0x25A0, CChar 0x25A1, CChar 0x25B3,
        CChar 0x25BD, CChar 0x25BC, CChar 0x25B6, CChar 0x25C0, CChar 0x25AE,
        CChar 0x2606, CChar 0x2605, CChar 0x203B], Star (Cls [CSpace]), Plus (Dot)],
      H3, 6/10),
    (seqs [Bol, Cls [CChar 0x2460, CChar 0x2461, CChar 0x2462, CChar 0x2463,
        CChar 0x2464, CChar 0x2465, CChar 0x2466, CChar 0x2467, CChar 0x2468,
        CChar 0x2469], Star (Cls [CSpace]), Plus (Dot)],
      H3, 6/10),
    (seqs [Bol, alts [str [0x76EE, 0x6B21], str [0x3082, 0x304F, 0x3058], str [0x6982,
        0x8981], str [0x304C, 0x3044, 0x3088, 0x3046], str [0x306F, 0x3058, 0x3081,
        0x306B], str [0x7D42, 0x308F, 0x308A, 0x306B], str [0x307E, 0x3068, 0x3081],
        str [0x7D50, 0x8AD6], str [0x3051, 0x3064, 0x308D, 0x3093]]],
      H1, 8/10),
    (seqs [Bol, alts [str [0x5E8F, 0x8AD6], str [0x672C, 0x8AD6], str [0x7D50, 0x8AD6],
        str [0x5E8F, 0x6587], str [0x307E, 0x3048, 0x304C, 0x304D], str [0x3042, 0x3068,
        0x304C, 0x304D]]],
      H1, 7/10),
    (seqs [Bol, alts [str [0x80CC, 0x666F], str [0x76EE, 0x7684], str [0x65B9, 0x6CD5],
        str [0x7D50, 0x679C], str [0x8003, 0x5BDF], str [0x53C2, 0x8003, 0x6587, 0x732E]]],
      H1, 6/10),
    (seqs [Bol, AtLeast 8 (Cls [CRange 0x30A1 0x30F6, CChar 0x30FC,
        CRange 0x4E00 0x9FAF]), Eol],
      TITLE, 6/10)]"

definition chinese_patterns :: "rule list" where
  "chinese_patterns = [
    (seqs [Bol, Lit 0x7B2C, Plus (Cls [CRange 0x30 0x39, CChar 0x4E00, CChar 0x4E8C,
        CChar 0x4E09, CChar 0x56DB, CChar 0x4E94, CChar 0x516D, CChar 0x4E03,
        CChar 0x516B, CChar 0x4E5D, CChar 0x5341, CChar 0x767E, CChar 0x5343,
        CChar 0x4E07]), Cls [CChar 0x7AE0, CChar 0x8282, CChar 0x90E8, CChar 0x5206],
        Star (Cls [CSpace]), Plus (Dot)],
      H1, 9/10),
    (seqs [Bol, Plus (Cls [CRange 0x30 0x39]), Cls [CChar 0x2E, CChar 0xFF0E],
        Star (Cls [CSpace]), Plus (Dot)],
      H1, 8/10),
    (seqs [Bol, Plus (Cls [CRange 0x30 0x39]), Cls [CChar 0x2E, CChar 0xFF0E],
        Plus (Cls [CRange 0x30 0x39]), Cls [CChar 0x2E, CChar 0xFF0E],
        Star (Cls [CSpace]), Plus (Dot)],
      H2, 8/10),
    (seqs [Bol, Cls [CChar 0xB7, CChar 0x2022, CChar 0x25CB, CChar 0x25CF,
        CChar 0x25CE, CChar 0x25C6, CChar 0x25B2, CChar 0x25A0, CChar 0x25A1,
        CChar 0x25B3, CChar 0x25BD, CChar 0x25BC], Star (Cls [CSpace]), Plus (Dot)],
      H3, 6/10),
    (seqs [Bol, alts [str [0x76EE, 0x5F55], str [0x6982, 0x8FF0], str [0x6982, 0x8981],
        str [0x524D, 0x8A00], str [0x5E8F, 0x8A00], str [0x7ED3, 0x8BBA], str [0x603B,
        0x7ED3], str [0x53C2, 0x8003, 0x6587, 0x732E]]],
      H1, 8/10),
    (seqs [Bol, alts [str [0x80CC, 0x666F], str [0x76EE, 0x7684], str [0x65B9, 0x6CD5],
        str [0x7ED3, 0x679C], str [0x8BA8, 0x8BBA], str [0x5206, 0x6790]]],
      H1, 6/10)]"

definition korean_patterns :: "rule list" where
  "korean_patterns = [
    (seqs [Bol, Lit 0xC81C, Plus (Cls [CRange 0x30 0x39]), Cls [CChar 0xC7A5,
        CChar 0xC808, CChar 0xBD80], Star (Cls [CSpace]), Plus (Dot)],
      H1, 9/10),
    (seqs [Bol, Plus (Cls [CRange 0x30 0x39]), Cls [CChar 0x2E], Star (Cls [CSpace]),
        Plus (Dot)],
      H1, 8/10),
    (seqs [Bol, Plus (Cls [CRange 0x30 0x39]), Cls [CChar 0x2E],
        Plus (Cls [CRange 0x30 0x39]), Cls [CChar 0x2E], Star (Cls [CSpace]), Plus (Dot)],
      H2, 8/10),
    (seqs [Bol, Cls [CChar 0xB7, CChar 0x2022, CChar 0x25CB, CChar 0x25CF,
        CChar 0x25CE, CChar 0x25C6, CChar 0x25B2, CChar 0x25A0, CChar 0x25A1,
        CChar 0x25B3, CChar 0x25BD, CChar 0x25BC], Star (Cls [CSpace]), Plus (Dot)],
      H3, 6/10),
    (seqs [Bol, alts [str [0xBAA9, 0xCC28], str [0xAC1C, 0xC694], str [0xC11C, 0xB860],
        str [0xACB0, 0xB860], str [0xC694, 0xC57D], str [0xCC38, 0xACE0, 0xBB38, 0xD5CC]]],
      H1, 8/10),
    (seqs [Bol, alts [str [0xBC30, 0xACBD], str [0xBAA9, 0xC801], str [0xBC29, 0xBC95],
        str [0xACB0, 0xACFC], str [0xB17C, 0xC758], str [0xBD84, 0xC11D]]],
      H1, 6/10)]"

definition numeric_only :: regex where
  "numeric_only = seqs [Bol, Plus (Cls [CDigit, CSpace]), Eol]"

definition heading_patterns :: "string \<Rightarrow> rule list" where
  "heading_patterns lang =
     (if lang = ''english'' then english_patterns
      else if lang = ''japanese'' then japanese_patterns
      else if lang \<in> set [''chinese_simplified'', ''chinese_traditional''] then chinese_patterns
      else if lang = ''korean'' then korean_patterns
      else english_patterns)"

text \<open>Every configuration carries the same dictionary of font thresholds.\<close>

definition font_thresholds :: "string \<Rightarrow> level \<Rightarrow> rat option" where
  "font_thresholds lang = map_of [(TITLE, 16), (H1, 14), (H2, 12), (H3, 10)]"

subsection \<open>Config.detect_language\<close>

definition is_japanese_char :: "nat \<Rightarrow> bool" where
  "is_japanese_char c = ((0x3040 \<le> c \<and> c \<le> 0x309F) \<or> (0x30A0 \<le> c \<and> c \<le> 0x30FF)
     \<or> (0x4E00 \<le> c \<and> c \<le> 0x9FAF))"

definition is_chinese_char :: "nat \<Rightarrow> bool" where
  "is_chinese_char c = (0x4E00 \<le> c \<and> c \<le> 0x9FAF)"

definition is_korean_char :: "nat \<Rightarrow> bool" where
  "is_korean_char c = (0xAC00 \<le> c \<and> c \<le> 0xD7AF)"

definition detect_language :: "chardb \<Rightarrow> ustr \<Rightarrow> string" where
  "detect_language db text_sample =
    (let japanese_chars = length (filter is_japanese_char text_sample);
         chinese_chars = length (filter is_chinese_char text_sample);
         korean_chars = length (filter is_korean_char text_sample);
         total_chars = length (filter (isalpha db) text_sample)
     in if total_chars > 0 then
          if fdiv (of_nat japanese_chars) (of_nat total_chars) > fl64 (3/10) then ''japanese''
          else if fdiv (of_nat korean_chars) (of_nat total_chars) > fl64 (3/10) then ''korean''
          else if fdiv (of_nat chinese_chars) (of_nat total_chars) > fl64 (3/10)
            then ''chinese_simplified''
          else ''english''
        else ''english'')"

section \<open>extractor.py\<close>

subsection \<open>Lines of text\<close>

text \<open>The source methods are the strings \<open>"direct"\<close>, \<open>"ocr"\<close> and \<open>"ocr_fallback"\<close>.\<close>

datatype src_method = Direct | Ocr | OcrFallback

text \<open>
  A line is a dictionary with the keys below; every line the extractor builds carries all
  of them except \<open>confidence\<close>, which only lines read by OCR have.
\<close>

record text_line =
  ln_text :: ustr
  ln_page :: int
  ln_font_size :: rat
  ln_is_bold :: bool
  ln_x :: rat
  ln_y :: rat
  ln_is_centered :: bool
  ln_confidence :: "rat option"
  ln_method :: src_method

text \<open>One entry of the parallel lists of Tesseract's output dictionary.\<close>

record ocr_word =
  w_text :: ustr
  w_conf :: int
  w_left :: int
  w_top :: int
  w_width :: int
  w_height :: int

text \<open>The dictionary \<open>current_line\<close>; its \<open>bbox\<close> is \<open>None\<close> or \<open>[x, y, w, h]\<close>.\<close>

record line_data =
  ld_words :: "ustr list"
  ld_bbox :: "(int \<times> int \<times> int \<times> int) option"
  ld_confidences :: "int list"

definition strip :: "chardb \<Rightarrow> ustr \<Rightarrow> ustr" where
  "strip db s = rev (dropWhile (isspace db) (rev (dropWhile (isspace db) s)))"

fun join :: "ustr \<Rightarrow> ustr list \<Rightarrow> ustr" where
  "join sep [] = []"
| "join sep [w] = w"
| "join sep (w # ws) = w @ sep @ join sep ws"

text \<open>\<open>str.isupper\<close>: no lower-case or title-case character and at least one upper-case one.\<close>

definition py_isupper :: "chardb \<Rightarrow> ustr \<Rightarrow> bool" where
  "py_isupper db s = (\<not> list_ex (\<lambda>c. islower db c \<or> istitle db c) s \<and> list_ex (isupper db) s)"

abbreviation asian3 :: "string list" where
  "asian3 \<equiv> [''japanese'', ''chinese_simplified'', ''chinese_traditional'']"

abbreviation asian4 :: "string list" where
  "asian4 \<equiv> [''japanese'', ''chinese_simplified'', ''chinese_traditional'', ''korean'']"

subsection \<open>Line assembly from OCR words\<close>

definition estimate_font_size :: "int \<Rightarrow> rat" where
  "estimate_font_size height = max 8 (min 28 (fmul (of_int height) (fl64 (8/10))))"

definition detect_bold_text :: "chardb \<Rightarrow> string \<Rightarrow> ustr \<Rightarrow> rat \<Rightarrow> bool" where
  "detect_bold_text db lang text font_size =
     (if list_ex (\<lambda>(pattern, _, _). re_match db True pattern text) (heading_patterns lang) then True
      else if font_size > 14 then True
      else if lang = ''english'' \<and> py_isupper db text \<and> length text > 3 then True
      else False)"

definition is_text_centered :: "rat \<Rightarrow> rat \<Rightarrow> bool" where
  "is_text_centered x_pos page_width =
     (let center_zone = fmul page_width (fl64 (3/10));
          page_center = fdiv page_width 2
      in \<bar>fsub x_pos page_center\<bar> < center_zone)"

text \<open>
  \<open>_finalize_line\<close>. The average raises \<open>ZeroDivisionError\<close> on an empty list of
  confidences and the subscript of a missing box raises \<open>TypeError\<close>; the result is
  \<open>None\<close> for a line that is discarded.
\<close>

definition finalize_line ::
  "chardb \<Rightarrow> string \<Rightarrow> line_data \<Rightarrow> int \<Rightarrow> rat \<Rightarrow> error + text_line option" where
  "finalize_line db lang ld page_num page_width =
     (let text = (if lang \<in> set asian3 then concat (ld_words ld) else join [0x20] (ld_words ld))
      in if ld_confidences ld = [] then Inl ZeroDivisionError
         else
           let avg_confidence =
                 fdiv (of_int (sum_list (ld_confidences ld))) (of_nat (length (ld_confidences ld)));
               min_length = (if lang \<in> set asian4 then 1 else 2);
               min_conf = (if lang \<in> set asian4 then 20 else 25)
           in if length text < min_length \<or> avg_confidence < min_conf then Inr None
              else (case ld_bbox ld of
                      None \<Rightarrow> Inl TypeError
                    | Some (bx, by, bw, bh) \<Rightarrow>
                        let font_size = estimate_font_size bh;
                            is_bold = detect_bold_text db lang text font_size;
                            is_centered = is_text_centered (of_int bx) page_width
                        in Inr (Some \<lparr> ln_text = text, ln_page = page_num,
                              ln_font_size = font_size, ln_is_bold = is_bold,
                              ln_x = of_int bx, ln_y = of_int by, ln_is_centered = is_centered,
                              ln_confidence = Some avg_confidence, ln_method = Ocr \<rparr>)))"

text \<open>
  \<open>_group_words_into_lines\<close>. The state of the loop is the list of finished lines and
  the current line; \<open>group_step\<close> is the loop body for one word, \<open>flush_line\<close> the
  finalisation of the current line shared by the body and the end of the loop.
\<close>

definition flush_line ::
  "chardb \<Rightarrow> string \<Rightarrow> int \<Rightarrow> rat \<Rightarrow> text_line list \<Rightarrow> line_data \<Rightarrow> error + text_line list" where
  "flush_line db lang page_num page_width lines current_line =
     (if ld_words current_line \<noteq> [] then
        (case finalize_line db lang current_line page_num page_width of
           Inl e \<Rightarrow> Inl e
         | Inr None \<Rightarrow> Inr lines
         | Inr (Some line_info) \<Rightarrow> Inr (lines @ [line_info]))
      else Inr lines)"

definition group_step ::
  "chardb \<Rightarrow> string \<Rightarrow> int \<Rightarrow> rat \<Rightarrow> int \<Rightarrow> text_line list \<times> line_data \<Rightarrow> ocr_word
     \<Rightarrow> error + text_line list \<times> line_data" where
  "group_step db lang page_num page_width zoom_factor st wd =
     (let lines = fst st; current_line = snd st;
          word = strip db (w_text wd); conf = w_conf wd;
          min_confidence = (if lang \<in> set asian4 then 20 else 30)
      in if word \<noteq> [] \<and> conf > min_confidence then
           if zoom_factor = 0 then Inl ZeroDivisionError
           else
             let x = w_left wd div zoom_factor; y = w_top wd div zoom_factor;
                 w = w_width wd div zoom_factor; h = w_height wd div zoom_factor;
                 y_tolerance = (if lang \<in> set asian4 then 15 else 12)
             in (case ld_bbox current_line of
                   None \<Rightarrow>
                     Inr (lines, \<lparr> ld_words = ld_words current_line @ [word],
                            ld_bbox = Some (x, y, w, h),
                            ld_confidences = ld_confidences current_line @ [conf] \<rparr>)
                 | Some (bx, by, bw, bh) \<Rightarrow>
                     if \<bar>y - by\<bar> < y_tolerance then
                       Inr (lines, \<lparr> ld_words = ld_words current_line @ [word],
                              ld_bbox = Some (bx, by, max (bx + bw) (x + w) - bx, max bh h),
                              ld_confidences = ld_confidences current_line @ [conf] \<rparr>)
                     else
                       (case flush_line db lang page_num page_width lines current_line of
                          Inl e \<Rightarrow> Inl e
                        | Inr lines' \<Rightarrow>
                            Inr (lines', \<lparr> ld_words = [word], ld_bbox = Some (x, y, w, h),
                                   ld_confidences = [conf] \<rparr>)))
         else Inr st)"

fun group_loop ::
  "chardb \<Rightarrow> string \<Rightarrow> int \<Rightarrow> rat \<Rightarrow> int \<Rightarrow> text_line list \<times> line_data \<Rightarrow> ocr_word list
     \<Rightarrow> error + text_line list \<times> line_data" where
  "group_loop db lang page_num page_width zoom_factor st [] = Inr st"
| "group_loop db lang page_num page_width zoom_factor st (wd # wds) =
     (case group_step db lang page_num page_width zoom_factor st wd of
        Inl e \<Rightarrow> Inl e
      | Inr st' \<Rightarrow> group_loop db lang page_num page_width zoom_factor st' wds)"

definition group_words_into_lines ::
  "chardb \<Rightarrow> string \<Rightarrow> ocr_word list \<Rightarrow> int \<Rightarrow> rat \<Rightarrow> int \<Rightarrow> error + text_line list" where
  "group_words_into_lines db lang ocr_data page_num page_width zoom_factor =
     (case group_loop db lang page_num page_width zoom_factor
             ([], \<lparr> ld_words = [], ld_bbox = None, ld_confidences = [] \<rparr>) ocr_data of
        Inl e \<Rightarrow> Inl e
      | Inr (lines, current_line) \<Rightarrow> flush_line db lang page_num page_width lines current_line)"

subsection \<open>classify_heading\<close>

text \<open>
  The score of one matching rule: the base confidence and the four bonuses, added in the
  order of the source, then clamped.
\<close>

definition rule_confidence :: "string \<Rightarrow> text_line \<Rightarrow> level \<Rightarrow> rat \<Rightarrow> rat" where
  "rule_confidence lang line heading_type base_confidence =
     (let confidence = fl64 base_confidence;
          confidence = (if ln_is_bold line then fadd confidence (fl64 (1/10)) else confidence);
          confidence = (if ln_font_size line \<ge>
                           (case font_thresholds lang heading_type of Some t \<Rightarrow> t | None \<Rightarrow> 12)
                        then fadd confidence (fl64 (15/100)) else confidence);
          confidence = (if ln_is_centered line \<and> heading_type = TITLE
                        then fadd confidence (fl64 (2/10)) else confidence);
          confidence = (if ln_method line = Direct
                        then fadd confidence (fl64 (5/100)) else confidence)
      in min (fl64 (98/100)) confidence)"

fun rule_scan ::
  "chardb \<Rightarrow> string \<Rightarrow> text_line \<Rightarrow> ustr \<Rightarrow> rule list \<Rightarrow> level \<times> rat \<Rightarrow> level \<times> rat" where
  "rule_scan db lang line text [] best_match = best_match"
| "rule_scan db lang line text ((pattern, heading_type, base_confidence) # rules) best_match =
     (if re_search db True pattern text then
        let confidence = rule_confidence lang line heading_type base_confidence
        in rule_scan db lang line text rules
             (if confidence > snd best_match then (heading_type, confidence) else best_match)
      else rule_scan db lang line text rules best_match)"

definition fallback :: "text_line \<Rightarrow> ustr \<Rightarrow> level \<times> rat \<Rightarrow> level \<times> rat" where
  "fallback line text best_match =
     (if ln_font_size line \<ge> 18 \<and> (ln_is_bold line \<or> ln_is_centered line) then (TITLE, 1/2)
      else if ln_font_size line \<ge> 16 \<and> ln_is_bold line then (H1, fl64 (4/10))
      else if ln_font_size line \<ge> 14 \<and> ln_is_bold line then (H2, fl64 (35/100))
      else if ln_font_size line \<ge> 12 \<and> ln_is_bold line then (H3, 1/4)
      else if ln_is_centered line \<and> length text > 8 then (TITLE, fl64 (3/10))
      else best_match)"

definition classify_heading :: "chardb \<Rightarrow> string \<Rightarrow> text_line \<Rightarrow> level \<times> rat" where
  "classify_heading db lang line =
     (let text = strip db (ln_text line);
          min_length = (if lang \<in> set asian4 then 1 else 3)
      in if length text < min_length then (BODY, fl64 (1/10))
         else if re_match db False numeric_only text then (BODY, fl64 (1/10))
         else
           let best_match = rule_scan db lang line text (heading_patterns lang) (BODY, 0)
           in if snd best_match < 1/4 then fallback line text best_match else best_match)"

text \<open>
  For the statements about the rule scan: the matching rules of a text in the order of
  the table, each with its level and its score.
\<close>

definition scored_matches :: "chardb \<Rightarrow> string \<Rightarrow> text_line \<Rightarrow> ustr \<Rightarrow> (level \<times> rat) list" where
  "scored_matches db lang line text =
     map (\<lambda>(pattern, heading_type, base_confidence).
            (heading_type, rule_confidence lang line heading_type base_confidence))
       (filter (\<lambda>(pattern, heading_type, base_confidence). re_search db True pattern text)
          (heading_patterns lang))"

subsection \<open>extract_outline\<close>

record outline_item =
  oi_level :: level
  oi_text :: ustr
  oi_page :: int

text \<open>
  The loop over the lines returned by \<open>extract_text_with_positions\<close>; its state is
  \<open>outline_items\<close> and \<open>title\<close>, and an unset title is the empty string.
\<close>

fun outline_loop ::
  "chardb \<Rightarrow> string \<Rightarrow> text_line list \<Rightarrow> outline_item list \<times> ustr \<Rightarrow> outline_item list \<times> ustr" where
  "outline_loop db lang [] st = st"
| "outline_loop db lang (line # lines) (outline_items, title) =
     (let (heading_type, confidence) = classify_heading db lang line;
          min_confidence = (if lang \<in> set asian4 then fl64 (2/10) else 1/4)
      in if heading_type \<noteq> BODY \<and> confidence > min_confidence then
           if heading_type = TITLE \<and> title = [] then
             outline_loop db lang lines (outline_items, ln_text line)
           else
             let heading_type = (if heading_type = TITLE then H1 else heading_type);
                 outline_items = outline_items @
                   [\<lparr> oi_level = heading_type, oi_text = ln_text line, oi_page = ln_page line + 1 \<rparr>];
                 title = (if title = [] \<and> heading_type = H1 \<and> confidence > 1/2
                          then ln_text line else title)
             in outline_loop db lang lines (outline_items, title)
         else outline_loop db lang lines (outline_items, title))"

record outline_result =
  or_title :: ustr
  or_outline :: "outline_item list"
  or_total_lines :: nat
  or_headings_found :: nat
  or_language :: string
  or_detected_language :: "string option"

text \<open>
  \<open>extract_outline\<close>, from the lines on: \<open>stem\<close> is the file name without its
  extension and \<open>detected\<close> the language the extractor switched to, if any. The
  processing time is the difference of two clock readings and is not represented.
\<close>

definition extract_outline ::
  "chardb \<Rightarrow> string \<Rightarrow> string option \<Rightarrow> text_line list \<Rightarrow> ustr \<Rightarrow> outline_result" where
  "extract_outline db lang detected lines stem =
     (let (outline_items, title) = outline_loop db lang lines ([], []);
          title = (if title = [] then
                     (case outline_items of [] \<Rightarrow> stem | item # _ \<Rightarrow> oi_text item)
                   else title)
      in \<lparr> or_title = title, or_outline = outline_items, or_total_lines = length lines,
           or_headings_found = length outline_items, or_language = lang,
           or_detected_language = detected \<rparr>)"

section \<open>Sample inputs\<close>

text \<open>Three lines of a document with an embedded text layer, set in 12 point type.\<close>

definition line_intro :: text_line where
  "line_intro = \<lparr> ln_text = u ''1. Introduction'', ln_page = 0, ln_font_size = 12,
     ln_is_bold = False, ln_x = 72, ln_y = 100, ln_is_centered = False,
     ln_confidence = None, ln_method = Direct \<rparr>"

definition line_annual :: text_line where
  "line_annual = \<lparr> ln_text = u ''ANNUAL REPORT'', ln_page = 0, ln_font_size = 12,
     ln_is_bold = False, ln_x = 72, ln_y = 140, ln_is_centered = False,
     ln_confidence = None, ln_method = Direct \<rparr>"

definition line_financial :: text_line where
  "line_financial = \<lparr> ln_text = u ''FINANCIAL SUMMARY'', ln_page = 1, ln_font_size = 12,
     ln_is_bold = False, ln_x = 72, ln_y = 100, ln_is_centered = False,
     ln_confidence = None, ln_method = Direct \<rparr>"

section \<open>Properties of the rounding function\<close>

lemma round_even_of_int [simp]: "round_even (of_int n) = n"
  by (simp add: round_even_def)

lemma round_even_mono:
  assumes "x \<le> y"
  shows "round_even x \<le> round_even y"
proof (cases "\<lfloor>x\<rfloor> = \<lfloor>y\<rfloor>")
  case True
  then show ?thesis using assms unfolding round_even_def Let_def by auto
next
  case False
  then have lt: "\<lfloor>x\<rfloor> < \<lfloor>y\<rfloor>" using floor_mono[OF assms] by linarith
  have "round_even x \<le> \<lfloor>x\<rfloor> + 1" unfolding round_even_def Let_def by auto
  moreover have "\<lfloor>y\<rfloor> \<le> round_even y" unfolding round_even_def Let_def by auto
  ultimately show ?thesis using lt by linarith
qed

lemma binade_ge1:
  assumes "1 \<le> x"
  shows "2 powi (binade x) \<le> x \<and> x < 2 powi (binade x + 1)"
proof -
  have p: "0 < \<lfloor>x\<rfloor>" using assms by linarith
  from bitlen_bounds[OF p]
  have b: "2 ^ nat (bitlen \<lfloor>x\<rfloor> - 1) \<le> \<lfloor>x\<rfloor>" "\<lfloor>x\<rfloor> < 2 ^ nat (bitlen \<lfloor>x\<rfloor>)" by auto
  have bl: "1 \<le> bitlen \<lfloor>x\<rfloor>"
    using p bitlen_eq_zero_iff[of "\<lfloor>x\<rfloor>"] bitlen_nonneg[of "\<lfloor>x\<rfloor>"] by linarith
  have "(of_int (2 ^ nat (bitlen \<lfloor>x\<rfloor> - 1)) :: rat) \<le> of_int \<lfloor>x\<rfloor>"
    using b(1) by (simp only: of_int_le_iff)
  also have "\<dots> \<le> x" by (rule of_int_floor_le)
  finally have lo: "(2::rat) ^ nat (bitlen \<lfloor>x\<rfloor> - 1) \<le> x" by simp
  have "\<lfloor>x\<rfloor> + 1 \<le> 2 ^ nat (bitlen \<lfloor>x\<rfloor>)" using b(2) by linarith
  then have "(of_int (\<lfloor>x\<rfloor> + 1) :: rat) \<le> of_int (2 ^ nat (bitlen \<lfloor>x\<rfloor>))"
    by (simp only: of_int_le_iff)
  moreover have "x < of_int (\<lfloor>x\<rfloor> + 1)" by linarith
  ultimately have "x < (of_int (2 ^ nat (bitlen \<lfloor>x\<rfloor>)) :: rat)" by (rule less_le_trans[rotated])
  then have hi: "x < (2::rat) ^ nat (bitlen \<lfloor>x\<rfloor>)" by simp
  show ?thesis using lo hi bl assms by (simp add: binade_def power_int_nonneg_exp)
qed

lemma binade_lt1:
  assumes "0 < x" "x < 1"
  shows "2 powi (binade x) \<le> x \<and> x < 2 powi (binade x + 1)"
proof -
  define n where "n = \<lceil>1 / x\<rceil> - 1"
  define k where "k = bitlen n"
  have y: "1 < 1 / x" using assms by simp
  have p: "0 < n" unfolding n_def using y by linarith
  from bitlen_bounds[OF p] have b: "2 ^ nat (k - 1) \<le> n" "n < 2 ^ nat k" by (auto simp: k_def)
  have kl: "1 \<le> k" unfolding k_def using p bitlen_eq_zero_iff[of n] bitlen_nonneg[of n] by linarith
  have e: "binade x = - k" using assms by (simp add: binade_def k_def n_def)
  have "n + 1 \<le> 2 ^ nat k" using b(2) by linarith
  then have "(of_int (n + 1) :: rat) \<le> of_int (2 ^ nat k)" by (simp only: of_int_le_iff)
  moreover have "1 / x \<le> of_int (n + 1)" unfolding n_def by simp
  ultimately have "1 / x \<le> 2 ^ nat k" by simp
  then have lo: "1 / 2 ^ nat k \<le> x" using assms by (simp add: field_simps)
  have "(of_int (2 ^ nat (k - 1)) :: rat) \<le> of_int n" using b(1) by (simp only: of_int_le_iff)
  moreover have "of_int n < 1 / x" unfolding n_def by simp linarith
  ultimately have "(of_int (2 ^ nat (k - 1)) :: rat) < 1 / x" by (rule le_less_trans)
  then have "2 ^ nat (k - 1) < 1 / x" by simp
  then have hi: "x < 1 / 2 ^ nat (k - 1)" using assms by (simp add: field_simps)
  have "2 powi (- k) = 1 / (2::rat) ^ nat k"
    using kl by (simp add: power_int_minus_divide power_int_nonneg_exp)
  moreover have "2 powi (- k + 1) = 1 / (2::rat) ^ nat (k - 1)"
  proof -
    have "- k + 1 = - (k - 1)" by simp
    then show ?thesis
      using kl by (simp only: power_int_minus_divide) (simp add: power_int_nonneg_exp)
  qed
  ultimately show ?thesis using lo hi e by simp
qed

lemma binade_spec: "0 < x \<Longrightarrow> 2 powi (binade x) \<le> x \<and> x < 2 powi (binade x + 1)"
  using binade_ge1[of x] binade_lt1[of x] by (cases "1 \<le> x") auto

lemma binade_mono:
  assumes "0 < x" "x \<le> y"
  shows "binade x \<le> binade y"
proof (rule ccontr)
  assume "\<not> binade x \<le> binade y"
  then have "binade y + 1 \<le> binade x" by simp
  then have "(2::rat) powi (binade y + 1) \<le> 2 powi (binade x)" by (simp add: power_int_increasing)
  then show False using binade_spec[of x] binade_spec[of y] assms by linarith
qed

lemma binade_unique:
  assumes "2 powi e \<le> x" "x < 2 powi (e + 1)"
  shows "binade x = e"
proof -
  have pos: "0 < x" using assms(1) zero_less_power_int[of "2::rat" e] by linarith
  note s = binade_spec[OF pos]
  have "\<not> binade x + 1 \<le> e"
  proof
    assume "binade x + 1 \<le> e"
    then have "(2::rat) powi (binade x + 1) \<le> 2 powi e" by (simp add: power_int_increasing)
    then show False using s assms by linarith
  qed
  moreover have "\<not> e + 1 \<le> binade x"
  proof
    assume "e + 1 \<le> binade x"
    then have "(2::rat) powi (e + 1) \<le> 2 powi (binade x)" by (simp add: power_int_increasing)
    then show False using s assms by linarith
  qed
  ultimately show ?thesis by linarith
qed

lemma flp_bounds:
  assumes "0 < x"
  shows "2 powi (binade x) \<le> flp x" "flp x \<le> 2 powi (binade x + 1)"
proof -
  let ?e = "binade x"
  have s: "2 powi ?e \<le> x" "x < 2 powi (?e + 1)" using binade_spec[OF assms] by auto
  have pos: "(0::rat) < 2 powi (52 - ?e)" by simp
  have "2 powi ?e * 2 powi (52 - ?e) \<le> x * 2 powi (52 - ?e)"
    using s(1) pos by (simp only: mult_le_cancel_right_pos)
  then have "(2::rat) powi 52 \<le> x * 2 powi (52 - ?e)" by (simp add: power_int_add[symmetric])
  then have "(of_int (2 ^ 52) :: rat) \<le> x * 2 powi (52 - ?e)" by simp
  from round_even_mono[OF this] have "2 ^ 52 \<le> round_even (x * 2 powi (52 - ?e))"
    by (simp only: round_even_of_int)
  then have "(of_int (2 ^ 52) :: rat) \<le> of_int (round_even (x * 2 powi (52 - ?e)))"
    by (simp only: of_int_le_iff)
  then have A: "(of_int (2 ^ 52) :: rat) * 2 powi (?e - 52)
      \<le> of_int (round_even (x * 2 powi (52 - ?e))) * 2 powi (?e - 52)"
    by (simp only: mult_le_cancel_right_pos zero_less_power_int zero_less_numeral)
  have B: "(of_int (2 ^ 52) :: rat) * 2 powi (?e - 52) = 2 powi ?e"
    using power_int_add[of "2::rat" 52 "?e - 52"] by simp
  show "2 powi (binade x) \<le> flp x" unfolding flp_def Let_def by (rule A[unfolded B])
  have "x * 2 powi (52 - ?e) \<le> 2 powi (?e + 1) * 2 powi (52 - ?e)"
    using s(2) pos by (simp only: mult_le_cancel_right_pos)
  then have "x * 2 powi (52 - ?e) \<le> (2::rat) powi 53" by (simp add: power_int_add[symmetric])
  then have "x * 2 powi (52 - ?e) \<le> (of_int (2 ^ 53) :: rat)" by simp
  from round_even_mono[OF this] have "round_even (x * 2 powi (52 - ?e)) \<le> 2 ^ 53"
    by (simp only: round_even_of_int)
  then have "(of_int (round_even (x * 2 powi (52 - ?e))) :: rat) \<le> of_int (2 ^ 53)"
    by (simp only: of_int_le_iff)
  then have C: "of_int (round_even (x * 2 powi (52 - ?e))) * 2 powi (?e - 52)
      \<le> (of_int (2 ^ 53) :: rat) * 2 powi (?e - 52)"
    by (simp only: mult_le_cancel_right_pos zero_less_power_int zero_less_numeral)
  have D: "(of_int (2 ^ 53) :: rat) * 2 powi (?e - 52) = 2 powi (?e + 1)"
    using power_int_add[of "2::rat" 53 "?e - 52"] by (simp add: add.commute)
  show "flp x \<le> 2 powi (binade x + 1)" unfolding flp_def Let_def by (rule C[unfolded D])
qed

lemma flp_pos: "0 < x \<Longrightarrow> 0 < flp x"
  using flp_bounds(1)[of x] zero_less_power_int[of "2::rat" "binade x"] by linarith

lemma flp_mono:
  assumes "0 < x" "x \<le> y"
  shows "flp x \<le> flp y"
proof (cases "binade x = binade y")
  case True
  have "x * 2 powi (52 - binade y) \<le> y * 2 powi (52 - binade y)" using assms by simp
  from round_even_mono[OF this] show ?thesis by (simp add: flp_def Let_def True)
next
  case False
  then have "binade x + 1 \<le> binade y" using binade_mono[OF assms] by linarith
  then have "(2::rat) powi (binade x + 1) \<le> 2 powi (binade y)" by (simp add: power_int_increasing)
  moreover have "0 < y" using assms by simp
  ultimately show ?thesis using flp_bounds(2)[OF assms(1)] flp_bounds(1)[of y] by linarith
qed

lemma fl64_mono:
  assumes "x \<le> y"
  shows "fl64 x \<le> fl64 y"
proof -
  consider "x < 0" "y < 0" | "x < 0" "y = 0" | "x < 0" "0 < y" | "x = 0" "y = 0"
    | "x = 0" "0 < y" | "0 < x" "0 < y"
    using assms by linarith
  then show ?thesis
  proof cases
    case 1 then show ?thesis using flp_mono[of "- y" "- x"] assms by (simp add: fl64_def)
  next
    case 2 then show ?thesis using flp_pos[of "- x"] by (simp add: fl64_def)
  next
    case 3 then show ?thesis using flp_pos[of "- x"] flp_pos[of y] by (simp add: fl64_def)
  next
    case 4 then show ?thesis by simp
  next
    case 5 then show ?thesis using flp_pos[of y] by (simp add: fl64_def)
  next
    case 6 then show ?thesis using flp_mono[of x y] assms by (simp add: fl64_def)
  qed
qed

lemma flp_idem:
  assumes "0 < x"
  shows "flp (flp x) = flp x"
proof -
  let ?e = "binade x"
  let ?R = "round_even (x * 2 powi (52 - ?e))"
  have fx: "flp x = of_int ?R * 2 powi (?e - 52)" by (simp add: flp_def Let_def)
  note b = flp_bounds[OF assms]
  show ?thesis
  proof (cases "flp x < 2 powi (?e + 1)")
    case True
    then have be: "binade (flp x) = ?e" using b(1) by (intro binade_unique) auto
    have "flp x * 2 powi (52 - ?e) = of_int ?R * (2 powi (?e - 52) * 2 powi (52 - ?e))"
      by (simp add: fx)
    also have "\<dots> = of_int ?R" using power_int_add[of "2::rat" "?e - 52" "52 - ?e"] by simp
    finally have "flp x * 2 powi (52 - ?e) = of_int ?R" .
    then have "flp (flp x) = of_int (round_even (of_int ?R)) * 2 powi (?e - 52)"
      unfolding flp_def[of "flp x"] Let_def be by simp
    then show ?thesis by (simp add: fx)
  next
    case False
    then have eq: "flp x = 2 powi (?e + 1)" using b(2) by linarith
    have "(2::rat) powi (?e + 1) < 2 powi (?e + 1 + 1)" by (simp add: power_int_strict_increasing)
    then have be: "binade (flp x) = ?e + 1" unfolding eq by (intro binade_unique) auto
    have "(2::rat) powi (?e + 1) * 2 powi (52 - (?e + 1)) = 2 powi 52"
      using power_int_add[of "2::rat" "?e + 1" "52 - (?e + 1)"] by simp
    then have s: "(2::rat) powi (?e + 1) * 2 powi (52 - (?e + 1)) = of_int (2 ^ 52)" by simp
    have "flp (flp x) = of_int (round_even (of_int (2 ^ 52))) * 2 powi (?e + 1 - 52)"
      unfolding flp_def[of "flp x"] Let_def be unfolding eq s ..
    also have "\<dots> = 2 powi 52 * 2 powi (?e + 1 - 52)" by (simp only: round_even_of_int) simp
    also have "\<dots> = 2 powi (?e + 1)"
      using power_int_add[of "2::rat" 52 "?e + 1 - 52"] by (simp add: add.commute)
    finally show ?thesis by (simp add: eq)
  qed
qed

lemma fl64_idem [simp]: "fl64 (fl64 x) = fl64 x"
proof -
  consider "x < 0" | "x = 0" | "0 < x" by linarith
  then show ?thesis
  proof cases
    case 1 then show ?thesis using flp_pos[of "- x"] flp_idem[of "- x"] by (simp add: fl64_def)
  next
    case 2 then show ?thesis by (simp add: fl64_def)
  next
    case 3 then show ?thesis using flp_pos[of x] flp_idem[of x] by (simp add: fl64_def)
  qed
qed

lemma fl64_0 [simp]: "fl64 0 = 0" by (simp add: fl64_def)
lemma fl64_1 [simp]: "fl64 1 = 1" by code_simp

lemma fl64_nonneg: "0 \<le> x \<Longrightarrow> 0 \<le> fl64 x"
  using fl64_mono[of 0 x] by simp

section \<open>Scores of the heading rules\<close>

lemma fl64_half: "fl64 (1/2) = 1/2"
  by code_simp

lemma fl64_ge_half: "1/2 \<le> x \<Longrightarrow> 1/2 \<le> fl64 x"
  using fl64_mono[of "1/2" x] by (simp add: fl64_half)

lemma fadd_ge_half: "1/2 \<le> x \<Longrightarrow> 0 \<le> k \<Longrightarrow> 1/2 \<le> fadd x (fl64 k)"
  unfolding fadd_def using fl64_nonneg[of k] by (intro fl64_ge_half) linarith

lemma fadd_if_ge_half:
  "1/2 \<le> x \<Longrightarrow> 0 \<le> k \<Longrightarrow> 1/2 \<le> (if b then fadd x (fl64 k) else x)"
  using fadd_ge_half by simp

lemma rule_confidence_ge_half:
  assumes "1/2 \<le> c"
  shows "1/2 \<le> rule_confidence lang line l c"
  unfolding rule_confidence_def Let_def
  by (intro min.boundedI fadd_if_ge_half fl64_ge_half assms) simp_all

lemma english_patterns_ok: "list_all (\<lambda>(p, l, c). 1/2 \<le> c \<and> l \<noteq> BODY) english_patterns"
  by (simp add: english_patterns_def)

lemma japanese_patterns_ok: "list_all (\<lambda>(p, l, c). 1/2 \<le> c \<and> l \<noteq> BODY) japanese_patterns"
  by (simp add: japanese_patterns_def)

lemma chinese_patterns_ok: "list_all (\<lambda>(p, l, c). 1/2 \<le> c \<and> l \<noteq> BODY) chinese_patterns"
  by (simp add: chinese_patterns_def)

lemma korean_patterns_ok: "list_all (\<lambda>(p, l, c). 1/2 \<le> c \<and> l \<noteq> BODY) korean_patterns"
  by (simp add: korean_patterns_def)

lemma heading_patterns_ok: "list_all (\<lambda>(p, l, c). 1/2 \<le> c \<and> l \<noteq> BODY) (heading_patterns lang)"
  unfolding heading_patterns_def
  using english_patterns_ok japanese_patterns_ok chinese_patterns_ok korean_patterns_ok
  by simp

lemma foldl_pick_argmax:
  fixes xs :: "('a \<times> rat) list" and b :: "'a \<times> rat"
  defines "pick \<equiv> (\<lambda>b x. if snd x > snd b then x else b)"
  shows "(foldl pick b xs = b \<and> (\<forall>x \<in> set xs. snd x \<le> snd b))
       \<or> (\<exists>i < length xs. foldl pick b xs = xs ! i \<and> snd b < snd (xs ! i)
            \<and> (\<forall>j < length xs. snd (xs ! j) \<le> snd (xs ! i))
            \<and> (\<forall>j < i. snd (xs ! j) < snd (xs ! i)))"
proof (induction xs rule: rev_induct)
  case Nil
  then show ?case by simp
next
  case (snoc x xs)
  let ?r = "foldl pick b xs"
  have step: "foldl pick b (xs @ [x]) = (if snd x > snd ?r then x else ?r)"
    by (simp add: pick_def)
  have F1: "snd (xs ! j) \<le> snd ?r" if "j < length xs" for j
    using snoc.IH
  proof
    assume a: "?r = b \<and> (\<forall>x \<in> set xs. snd x \<le> snd b)"
    have "xs ! j \<in> set xs" using that by simp
    then show ?thesis using a by simp
  next
    assume "\<exists>i < length xs. ?r = xs ! i \<and> snd b < snd (xs ! i)
            \<and> (\<forall>j < length xs. snd (xs ! j) \<le> snd (xs ! i))
            \<and> (\<forall>j < i. snd (xs ! j) < snd (xs ! i))"
    then obtain i where "?r = xs ! i" "\<forall>j < length xs. snd (xs ! j) \<le> snd (xs ! i)" by blast
    then show ?thesis using that by simp
  qed
  have F2: "snd b \<le> snd ?r"
    using snoc.IH
  proof
    assume "?r = b \<and> (\<forall>x \<in> set xs. snd x \<le> snd b)"
    then show ?thesis by simp
  next
    assume "\<exists>i < length xs. ?r = xs ! i \<and> snd b < snd (xs ! i)
            \<and> (\<forall>j < length xs. snd (xs ! j) \<le> snd (xs ! i))
            \<and> (\<forall>j < i. snd (xs ! j) < snd (xs ! i))"
    then obtain i where "?r = xs ! i" "snd b < snd (xs ! i)" by blast
    then show ?thesis by simp
  qed
  show ?case
  proof (cases "snd x > snd ?r")
    case True
    let ?i = "length xs"
    have a1: "?i < length (xs @ [x])" by simp
    have a2: "foldl pick b (xs @ [x]) = (xs @ [x]) ! ?i" using True step by simp
    have a3: "snd b < snd ((xs @ [x]) ! ?i)" using True F2 by simp
    have a4: "snd ((xs @ [x]) ! j) \<le> snd ((xs @ [x]) ! ?i)" if "j < length (xs @ [x])" for j
    proof (cases "j < length xs")
      case True
      then show ?thesis using F1[OF True] \<open>snd x > snd ?r\<close> by (simp add: nth_append)
    next
      case False
      then have "j = length xs" using that by simp
      then show ?thesis by simp
    qed
    have a5: "snd ((xs @ [x]) ! j) < snd ((xs @ [x]) ! ?i)" if "j < ?i" for j
      using F1[OF that] True that by (simp add: nth_append)
    show ?thesis using a1 a2 a3 a4 a5 by blast
  next
    case False
    then have eq: "foldl pick b (xs @ [x]) = ?r" using step by simp
    have xle: "snd x \<le> snd ?r" using False by simp
    from snoc.IH show ?thesis
    proof
      assume a: "?r = b \<and> (\<forall>x \<in> set xs. snd x \<le> snd b)"
      then have "foldl pick b (xs @ [x]) = b \<and> (\<forall>y \<in> set (xs @ [x]). snd y \<le> snd b)"
        using eq xle by auto
      then show ?thesis by blast
    next
      assume "\<exists>i < length xs. ?r = xs ! i \<and> snd b < snd (xs ! i)
            \<and> (\<forall>j < length xs. snd (xs ! j) \<le> snd (xs ! i))
            \<and> (\<forall>j < i. snd (xs ! j) < snd (xs ! i))"
      then obtain i where i: "i < length xs" "?r = xs ! i" "snd b < snd (xs ! i)"
        "\<forall>j < length xs. snd (xs ! j) \<le> snd (xs ! i)" "\<forall>j < i. snd (xs ! j) < snd (xs ! i)" by blast
      have b1: "i < length (xs @ [x])" using i(1) by simp
      have b2: "foldl pick b (xs @ [x]) = (xs @ [x]) ! i" using eq i(1,2) by (simp add: nth_append)
      have b3: "snd b < snd ((xs @ [x]) ! i)" using i(1,3) by (simp add: nth_append)
      have b4: "snd ((xs @ [x]) ! j) \<le> snd ((xs @ [x]) ! i)" if "j < length (xs @ [x])" for j
      proof (cases "j < length xs")
        case True
        then show ?thesis using i(1,4) by (simp add: nth_append)
      next
        case False
        then have "j = length xs" using that by simp
        then show ?thesis using xle i(1,2) by (simp add: nth_append)
      qed
      have b5: "snd ((xs @ [x]) ! j) < snd ((xs @ [x]) ! i)" if "j < i" for j
        using i(1,5) that by (simp add: nth_append)
      show ?thesis using b1 b2 b3 b4 b5 by blast
    qed
  qed
qed

lemma rule_scan_foldl:
  "rule_scan db lang line text rules best =
     foldl (\<lambda>b x. if snd x > snd b then x else b) best
       (map (\<lambda>(pattern, heading_type, base_confidence).
              (heading_type, rule_confidence lang line heading_type base_confidence))
          (filter (\<lambda>(pattern, heading_type, base_confidence). re_search db True pattern text) rules))"
proof (induction rules arbitrary: best)
  case Nil
  show ?case by simp
next
  case (Cons r rules)
  obtain p l c where r: "r = (p, l, c)" by (cases r) auto
  show ?case unfolding r by (simp add: Let_def Cons.IH)
qed

lemma rule_scan_scored:
  "rule_scan db lang line text (heading_patterns lang) best =
     foldl (\<lambda>b x. if snd x > snd b then x else b) best (scored_matches db lang line text)"
  by (simp add: rule_scan_foldl scored_matches_def)

lemma scored_matches_ge_half:
  assumes "x \<in> set (scored_matches db lang line text)"
  shows "1/2 \<le> snd x \<and> fst x \<noteq> BODY"
proof -
  from assms obtain p l c where r: "(p, l, c) \<in> set (heading_patterns lang)"
    and x: "x = (l, rule_confidence lang line l c)"
    by (auto simp: scored_matches_def)
  from r heading_patterns_ok[of lang] have "1/2 \<le> c \<and> l \<noteq> BODY"
    by (auto simp: list_all_iff)
  then show ?thesis using rule_confidence_ge_half[of c lang line l] x by simp
qed

lemma rule_scan_cases:
  "(scored_matches db lang line text = []
      \<and> rule_scan db lang line text (heading_patterns lang) (BODY, 0) = (BODY, 0))
   \<or> (\<exists>i < length (scored_matches db lang line text).
        rule_scan db lang line text (heading_patterns lang) (BODY, 0) = scored_matches db lang line text ! i
        \<and> (\<forall>j < length (scored_matches db lang line text).
              snd (scored_matches db lang line text ! j) \<le> snd (scored_matches db lang line text ! i))
        \<and> (\<forall>j < i. snd (scored_matches db lang line text ! j) < snd (scored_matches db lang line text ! i)))"
proof -
  let ?ms = "scored_matches db lang line text"
  let ?r = "rule_scan db lang line text (heading_patterns lang) (BODY, 0)"
  have r: "?r = foldl (\<lambda>b x. if snd x > snd b then x else b) (BODY, 0) ?ms"
    by (rule rule_scan_scored)
  from foldl_pick_argmax[of "(BODY, 0)" ?ms]
  have "(?r = (BODY, 0) \<and> (\<forall>x \<in> set ?ms. snd x \<le> snd (BODY, 0::rat)))
       \<or> (\<exists>i < length ?ms. ?r = ?ms ! i \<and> snd (BODY, 0::rat) < snd (?ms ! i)
            \<and> (\<forall>j < length ?ms. snd (?ms ! j) \<le> snd (?ms ! i))
            \<and> (\<forall>j < i. snd (?ms ! j) < snd (?ms ! i)))"
    unfolding r .
  then show ?thesis
  proof
    assume a: "?r = (BODY, 0) \<and> (\<forall>x \<in> set ?ms. snd x \<le> snd (BODY, 0::rat))"
    have "?ms = []"
    proof (rule ccontr)
      assume "?ms \<noteq> []"
      then obtain x where x: "x \<in> set ?ms" by (cases ?ms) auto
      with a have "snd x \<le> 0" by simp
      moreover have "1/2 \<le> snd x" using scored_matches_ge_half[OF x] by simp
      ultimately show False by simp
    qed
    then show ?thesis using a by simp
  next
    assume "\<exists>i < length ?ms. ?r = ?ms ! i \<and> snd (BODY, 0::rat) < snd (?ms ! i)
            \<and> (\<forall>j < length ?ms. snd (?ms ! j) \<le> snd (?ms ! i))
            \<and> (\<forall>j < i. snd (?ms ! j) < snd (?ms ! i))"
    then show ?thesis by blast
  qed
qed

lemma rule_scan_small:
  assumes "snd (rule_scan db lang line text (heading_patterns lang) (BODY, 0)) < 1/4"
  shows "rule_scan db lang line text (heading_patterns lang) (BODY, 0) = (BODY, 0)"
    and "scored_matches db lang line text = []"
proof -
  let ?ms = "scored_matches db lang line text"
  let ?r = "rule_scan db lang line text (heading_patterns lang) (BODY, 0)"
  have "\<not> (\<exists>i < length ?ms. ?r = ?ms ! i)"
  proof
    assume "\<exists>i < length ?ms. ?r = ?ms ! i"
    then obtain i where i: "i < length ?ms" "?r = ?ms ! i" by blast
    then have "?ms ! i \<in> set ?ms" by simp
    from scored_matches_ge_half[OF this] have "1/2 \<le> snd ?r" using i by simp
    then show False using assms by simp
  qed
  with rule_scan_cases[of db lang line "text"]
  show "?r = (BODY, 0)" and "?ms = []" by blast+
qed

text \<open>
  Claim C4. A line whose trimmed text is shorter than the minimum of the language (1 for
  the four Asian languages, 3 otherwise) or is made of digits and white space only is
  \<open>(BODY, 0.1)\<close>. Otherwise, when some rule matches, the verdict is the first of the
  matching rules with the greatest score. The score of a rule is its base confidence plus,
  in this order and each in binary64 arithmetic, 0.10 for a bold line, 0.15 for a font
  size at or above the threshold of the rule's level, 0.20 for a centred line and a TITLE
  rule, 0.05 for the source method \<open>direct\<close>, clamped to at most 0.98.
\<close>

theorem classify_heading_rule_scan:
  "(length (strip db (ln_text line)) < (if lang \<in> set asian4 then 1 else 3)
      \<or> re_match db False numeric_only (strip db (ln_text line))
    \<longrightarrow> classify_heading db lang line = (BODY, fl64 (1/10)))
   \<and> (\<not> length (strip db (ln_text line)) < (if lang \<in> set asian4 then 1 else 3)
      \<and> \<not> re_match db False numeric_only (strip db (ln_text line))
      \<and> scored_matches db lang line (strip db (ln_text line)) \<noteq> []
    \<longrightarrow> (\<exists>i < length (scored_matches db lang line (strip db (ln_text line))).
          classify_heading db lang line = scored_matches db lang line (strip db (ln_text line)) ! i
          \<and> (\<forall>j < length (scored_matches db lang line (strip db (ln_text line))).
                snd (scored_matches db lang line (strip db (ln_text line)) ! j)
                  \<le> snd (scored_matches db lang line (strip db (ln_text line)) ! i))
          \<and> (\<forall>j < i. snd (scored_matches db lang line (strip db (ln_text line)) ! j)
                  < snd (scored_matches db lang line (strip db (ln_text line)) ! i))))
   \<and> rule_confidence lang line heading_type base_confidence =
       min (fl64 (98/100))
         (foldl (\<lambda>confidence (applies, bonus). if applies then fadd confidence (fl64 bonus) else confidence)
            (fl64 base_confidence)
            [(ln_is_bold line, 1/10),
             (ln_font_size line \<ge> (case font_thresholds lang heading_type of Some t \<Rightarrow> t | None \<Rightarrow> 12), 15/100),
             (ln_is_centered line \<and> heading_type = TITLE, 2/10),
             (ln_method line = Direct, 5/100)])"
proof -
  let ?text = "strip db (ln_text line)"
  let ?ms = "scored_matches db lang line ?text"
  let ?r = "rule_scan db lang line ?text (heading_patterns lang) (BODY, 0)"
  have 1: "classify_heading db lang line = (BODY, fl64 (1/10))"
    if "length ?text < (if lang \<in> set asian4 then 1 else 3) \<or> re_match db False numeric_only ?text"
    using that by (auto simp: classify_heading_def Let_def)
  have 2: "\<exists>i < length ?ms. classify_heading db lang line = ?ms ! i
          \<and> (\<forall>j < length ?ms. snd (?ms ! j) \<le> snd (?ms ! i))
          \<and> (\<forall>j < i. snd (?ms ! j) < snd (?ms ! i))"
    if a: "\<not> length ?text < (if lang \<in> set asian4 then 1 else 3)"
      and b: "\<not> re_match db False numeric_only ?text" and c: "?ms \<noteq> []"
  proof -
    from rule_scan_cases[of db lang line ?text] c
    obtain i where i: "i < length ?ms" "?r = ?ms ! i"
      "\<forall>j < length ?ms. snd (?ms ! j) \<le> snd (?ms ! i)" "\<forall>j < i. snd (?ms ! j) < snd (?ms ! i)"
      by blast
    have "?ms ! i \<in> set ?ms" using i(1) by simp
    from scored_matches_ge_half[OF this] have "\<not> snd ?r < 1/4" using i(2) by simp
    then have "classify_heading db lang line = ?r"
      using a b by (simp add: classify_heading_def Let_def)
    then show ?thesis using i by auto
  qed
  have 3: "rule_confidence lang line heading_type base_confidence =
       min (fl64 (98/100))
         (foldl (\<lambda>confidence (applies, bonus). if applies then fadd confidence (fl64 bonus) else confidence)
            (fl64 base_confidence)
            [(ln_is_bold line, 1/10),
             (ln_font_size line \<ge> (case font_thresholds lang heading_type of Some t \<Rightarrow> t | None \<Rightarrow> 12), 15/100),
             (ln_is_centered line \<and> heading_type = TITLE, 2/10),
             (ln_method line = Direct, 5/100)])"
    by (simp add: rule_confidence_def Let_def)
  show ?thesis using 1 2 3 by blast
qed

lemma scored_matches_nonempty:
  assumes "i < length (heading_patterns lang)"
    and "re_search db True (fst (heading_patterns lang ! i)) t"
  shows "scored_matches db lang line t \<noteq> []"
proof -
  obtain p l c where r: "heading_patterns lang ! i = (p, l, c)"
    by (cases "heading_patterns lang ! i") auto
  have "(p, l, c) \<in> set (heading_patterns lang)" using assms(1) r by (metis nth_mem)
  then have "(p, l, c) \<in> set (filter (\<lambda>(pattern, heading_type, base_confidence). re_search db True pattern t)
          (heading_patterns lang))"
    using assms(2) r by simp
  then show ?thesis unfolding scored_matches_def by (auto simp del: set_filter)
qed

lemma numeric_sample: "re_match sample_db False numeric_only (strip sample_db (u ''12 34''))"
  by code_simp

lemma intro_sample:
  "\<not> length (strip sample_db (ln_text line_intro)) < 3
   \<and> \<not> re_match sample_db False numeric_only (strip sample_db (ln_text line_intro))
   \<and> 2 < length (heading_patterns ''english'')
   \<and> re_search sample_db True (fst (heading_patterns ''english'' ! 2))
        (strip sample_db (ln_text line_intro))"
  by code_simp

theorem classify_heading_rule_scan_witness:
  "classify_heading sample_db ''english'' (line_intro \<lparr> ln_text := u ''12 34'' \<rparr>) = (BODY, fl64 (1/10))
   \<and> (\<exists>i < length (scored_matches sample_db ''english'' line_intro (strip sample_db (ln_text line_intro))).
          classify_heading sample_db ''english'' line_intro =
            scored_matches sample_db ''english'' line_intro (strip sample_db (ln_text line_intro)) ! i)"
proof -
  have a: "re_match sample_db False numeric_only
      (strip sample_db (ln_text (line_intro \<lparr> ln_text := u ''12 34'' \<rparr>)))"
    using numeric_sample by simp
  have b: "scored_matches sample_db ''english'' line_intro (strip sample_db (ln_text line_intro)) \<noteq> []"
    using scored_matches_nonempty[of 2 "''english''" sample_db] intro_sample by blast
  have 1: "classify_heading sample_db ''english'' (line_intro \<lparr> ln_text := u ''12 34'' \<rparr>)
      = (BODY, fl64 (1/10))"
    using a classify_heading_rule_scan[of sample_db "line_intro \<lparr> ln_text := u ''12 34'' \<rparr>" "''english''",
        THEN conjunct1]
    by blast
  have 2: "\<exists>i < length (scored_matches sample_db ''english'' line_intro (strip sample_db (ln_text line_intro))).
          classify_heading sample_db ''english'' line_intro =
            scored_matches sample_db ''english'' line_intro (strip sample_db (ln_text line_intro)) ! i"
    using b intro_sample
      classify_heading_rule_scan[of sample_db line_intro "''english''", THEN conjunct2, THEN conjunct1]
    by auto
  show ?thesis using 1 2 by blast
qed

section \<open>Language detection\<close>

lemma fl64_03: "fl64 (3/10) = 5404319552844595 / 18014398509481984"
  by code_simp

lemma fl64_03_next: "fl64 (1351079888211149 / 4503599627370496) = 1351079888211149 / 4503599627370496"
  by code_simp

lemma frac_gt_03:
  assumes "0 < b" "b \<le> 2 ^ 51"
  shows "(fdiv (of_nat a) (of_nat b) > fl64 (3/10)) = (3 * b < 10 * a)"
proof
  assume gt: "fdiv (of_nat a) (of_nat b) > fl64 (3/10)"
  show "3 * b < 10 * a"
  proof (rule ccontr)
    assume "\<not> 3 * b < 10 * a"
    then have "10 * a \<le> 3 * b" by simp
    then have "(of_nat (10 * a) :: rat) \<le> of_nat (3 * b)" by (simp only: of_nat_le_iff)
    then have "(of_nat a :: rat) / of_nat b \<le> 3 / 10" using assms(1) by (simp add: field_simps)
    from fl64_mono[OF this] show False using gt by (simp add: fdiv_def)
  qed
next
  assume "3 * b < 10 * a"
  then have "3 * b + 1 \<le> 10 * a" by simp
  then have "(of_nat (3 * b + 1) :: rat) \<le> of_nat (10 * a)" by (simp only: of_nat_le_iff)
  then have A: "3 * (of_nat b :: rat) + 1 \<le> 10 * of_nat a" by simp
  have "(of_nat b :: rat) \<le> of_nat (2 ^ 51)" using assms(2) by (simp only: of_nat_le_iff)
  then have B: "(of_nat b :: rat) \<le> 2251799813685248" by simp
  have "1351079888211149 * (of_nat b :: rat) \<le> 4503599627370496 * of_nat a"
    using A B by linarith
  then have "1351079888211149 / 4503599627370496 \<le> (of_nat a :: rat) / of_nat b"
    using assms(1) by (simp add: field_simps)
  from fl64_mono[OF this]
  have "1351079888211149 / 4503599627370496 \<le> fdiv (of_nat a) (of_nat b)"
    by (simp only: fdiv_def fl64_03_next)
  moreover have "fl64 (3/10) < 1351079888211149 / 4503599627370496"
    by (simp add: fl64_03)
  ultimately show "fdiv (of_nat a) (of_nat b) > fl64 (3/10)" by linarith
qed

lemma length_filter_mono:
  "(\<And>x. x \<in> set xs \<Longrightarrow> P x \<Longrightarrow> Q x) \<Longrightarrow> length (filter P xs) \<le> length (filter Q xs)"
  by (induction xs) auto

lemma fdiv_ge_1:
  assumes "0 < b" "b \<le> a"
  shows "fl64 (3/10) < fdiv (of_nat a) (of_nat b)"
proof -
  have "(of_nat b :: rat) \<le> of_nat a" using assms(2) by (simp only: of_nat_le_iff)
  then have "1 \<le> (of_nat a :: rat) / of_nat b" using assms(1) by (simp add: field_simps)
  from fl64_mono[OF this] have "1 \<le> fdiv (of_nat a) (of_nat b)" by (simp add: fdiv_def)
  then show ?thesis by (simp add: fl64_03)
qed

lemma fdiv_0 [simp]: "fdiv 0 b = 0"
  by (simp add: fdiv_def)

lemma fl64_03_pos: "0 < fl64 (3/10)"
  by (simp add: fl64_03)

text \<open>
  Claim C10. The sample is never detected as Chinese, simplified or traditional: every
  character counted as Chinese is also counted as Japanese, so the Japanese quotient is at
  least the Chinese one and the earlier Japanese branch fires first. A sample made only of
  CJK ideographs (of which at least one is alphabetic for the runtime, as every ideograph
  is in CPython) is detected as Japanese.
\<close>

theorem detect_language_never_chinese:
  "detect_language db t \<noteq> ''chinese_simplified'' \<and> detect_language db t \<noteq> ''chinese_traditional''
   \<and> ((\<forall>c\<in>set t. is_chinese_char c) \<and> (\<exists>c\<in>set t. isalpha db c) \<longrightarrow> detect_language db t = ''japanese'')"
proof -
  let ?jp = "length (filter is_japanese_char t)"
  let ?zh = "length (filter is_chinese_char t)"
  let ?tot = "length (filter (isalpha db) t)"
  have le: "?zh \<le> ?jp"
    by (rule length_filter_mono) (simp add: is_chinese_char_def is_japanese_char_def)
  have "(of_nat ?zh :: rat) \<le> of_nat ?jp" using le by (simp only: of_nat_le_iff)
  then have "(of_nat ?zh :: rat) / of_nat ?tot \<le> of_nat ?jp / of_nat ?tot"
    by (rule divide_right_mono) simp
  from fl64_mono[OF this]
  have m: "fdiv (of_nat ?zh) (of_nat ?tot) \<le> fdiv (of_nat ?jp) (of_nat ?tot)" by (simp add: fdiv_def)
  have 1: "detect_language db t \<noteq> ''chinese_simplified''"
    using m by (auto simp: detect_language_def Let_def)
  have 2: "detect_language db t \<noteq> ''chinese_traditional''"
    by (auto simp: detect_language_def Let_def)
  have 3: "detect_language db t = ''japanese''"
    if a: "\<forall>c\<in>set t. is_chinese_char c" and b: "\<exists>c\<in>set t. isalpha db c"
  proof -
    have "filter is_japanese_char t = t" using a by (auto simp: is_chinese_char_def is_japanese_char_def)
    then have j: "?jp = length t" by simp
    have pos: "0 < ?tot" using b by (simp add: length_greater_0_conv filter_empty_conv)
    have "?tot \<le> ?jp" unfolding j by (rule length_filter_le)
    from fdiv_ge_1[OF pos this] show ?thesis using pos by (simp add: detect_language_def Let_def)
  qed
  show ?thesis using 1 2 3 by blast
qed

theorem detect_language_never_chinese_witness:
  "detect_language sample_db [0x4E2D, 0x6587] = ''japanese''"
  using detect_language_never_chinese[of sample_db "[0x4E2D, 0x6587]"]
  by (simp add: is_chinese_char_def sample_db_def sample_isalpha_def)


text \<open>
  Claim C6. For a sample of at most \<open>2^51\<close> characters the float comparisons
  \<open>count / total > 0.3\<close> agree with the exact ones, and the result is the cascade
  Japanese, Korean, simplified Chinese, English on the three quotients; a sample without
  alphabetic characters has no quotient and is English. Traditional Chinese is never
  returned. A non-empty sample of alphabetic characters of the kana and ideograph ranges
  is Japanese, one of alphabetic characters of the Hangul range is Korean, and a sample
  with no character of these ranges is English.
\<close>

theorem detect_language_cascade:
  "(length t \<le> 2 ^ 51 \<longrightarrow>
      detect_language db t =
        (let jp = length (filter is_japanese_char t);
             ko = length (filter is_korean_char t);
             zh = length (filter is_chinese_char t);
             total = length (filter (isalpha db) t)
         in if 0 < total \<and> 3 * total < 10 * jp then ''japanese''
            else if 0 < total \<and> 3 * total < 10 * ko then ''korean''
            else if 0 < total \<and> 3 * total < 10 * zh then ''chinese_simplified''
            else ''english''))
   \<and> detect_language db t \<noteq> ''chinese_traditional''
   \<and> (t \<noteq> [] \<and> (\<forall>c\<in>set t. is_japanese_char c \<and> isalpha db c) \<longrightarrow> detect_language db t = ''japanese'')
   \<and> (t \<noteq> [] \<and> (\<forall>c\<in>set t. is_korean_char c \<and> isalpha db c) \<longrightarrow> detect_language db t = ''korean'')
   \<and> ((\<forall>c\<in>set t. \<not> is_japanese_char c \<and> \<not> is_korean_char c) \<longrightarrow> detect_language db t = ''english'')"
proof -
  let ?jp = "length (filter is_japanese_char t)"
  let ?ko = "length (filter is_korean_char t)"
  let ?zh = "length (filter is_chinese_char t)"
  let ?tot = "length (filter (isalpha db) t)"
  have 1: "detect_language db t =
        (let jp = ?jp; ko = ?ko; zh = ?zh; total = ?tot
         in if 0 < total \<and> 3 * total < 10 * jp then ''japanese''
            else if 0 < total \<and> 3 * total < 10 * ko then ''korean''
            else if 0 < total \<and> 3 * total < 10 * zh then ''chinese_simplified''
            else ''english'')" if len: "length t \<le> 2 ^ 51"
  proof (cases "0 < ?tot")
    case False
    then show ?thesis by (simp add: detect_language_def)
  next
    case True
    have "?tot \<le> length t" by (rule length_filter_le)
    then have b: "?tot \<le> 2 ^ 51" using len by linarith
    show ?thesis
      using True by (simp add: detect_language_def Let_def frac_gt_03[OF True b])
  qed
  have 2: "detect_language db t \<noteq> ''chinese_traditional''"
    by (auto simp: detect_language_def Let_def)
  have 3: "detect_language db t = ''japanese''"
    if ne: "t \<noteq> []" and a: "\<forall>c\<in>set t. is_japanese_char c \<and> isalpha db c"
  proof -
    have "filter is_japanese_char t = t" "filter (isalpha db) t = t" using a by auto
    then have j: "?jp = length t" "?tot = length t" by simp_all
    have pos: "0 < ?tot" using ne j by simp
    have "?tot \<le> ?jp" using j by simp
    from fdiv_ge_1[OF pos this] show ?thesis using pos by (simp add: detect_language_def Let_def)
  qed
  have 4: "detect_language db t = ''korean''"
    if ne: "t \<noteq> []" and a: "\<forall>c\<in>set t. is_korean_char c \<and> isalpha db c"
  proof -
    have "filter is_korean_char t = t" "filter (isalpha db) t = t" using a by auto
    then have k: "?ko = length t" "?tot = length t" by simp_all
    have "filter is_japanese_char t = []"
      using a by (auto simp: filter_empty_conv is_korean_char_def is_japanese_char_def)
    then have j: "?jp = 0" by simp
    have pos: "0 < ?tot" using ne k by simp
    have "?tot \<le> ?ko" using k by simp
    from fdiv_ge_1[OF pos this] show ?thesis
      using pos fl64_03_pos by (simp add: detect_language_def Let_def j)
  qed
  have 5: "detect_language db t = ''english''"
    if a: "\<forall>c\<in>set t. \<not> is_japanese_char c \<and> \<not> is_korean_char c"
  proof -
    have "filter is_japanese_char t = []" "filter is_korean_char t = []"
      using a by (auto simp: filter_empty_conv)
    moreover have "filter is_chinese_char t = []"
      using a by (auto simp: filter_empty_conv is_chinese_char_def is_japanese_char_def)
    ultimately have "?jp = 0" "?ko = 0" "?zh = 0" by simp_all
    then show ?thesis using fl64_03_pos by (simp add: detect_language_def Let_def)
  qed
  show ?thesis using 1 2 3 4 5 by blast
qed

theorem detect_language_cascade_witness:
  "detect_language sample_db (u ''Chapter 1: '' @ [0x65E5, 0x672C, 0x8A9E] @ u '' and English mixed content'')
     = ''english''
   \<and> detect_language sample_db [0x306F, 0x3058, 0x3081, 0x306B, 0x30AB, 0x30BF, 0x30AB, 0x30CA, 0x6F22, 0x5B57]
     = ''japanese''
   \<and> detect_language sample_db [0xD55C, 0xAD6D, 0xC5B4] = ''korean''
   \<and> detect_language sample_db (u ''Chapter 1: Introduction'') = ''english''"
  using detect_language_cascade[of "u ''Chapter 1: '' @ [0x65E5, 0x672C, 0x8A9E] @ u '' and English mixed content''" sample_db]
    detect_language_cascade[of "[0x306F, 0x3058, 0x3081, 0x306B, 0x30AB, 0x30BF, 0x30AB, 0x30CA, 0x6F22, 0x5B57]" sample_db]
    detect_language_cascade[of "[0xD55C, 0xAD6D, 0xC5B4]" sample_db]
    detect_language_cascade[of "u ''Chapter 1: Introduction''" sample_db]
  by (simp add: u_def is_japanese_char_def is_korean_char_def is_chinese_char_def sample_db_def
      sample_isalpha_def)

end
